theory Spec2Isabelle
  imports Complex_Main
begin

section \<open>Python values shared by the modules\<close>

text \<open>
  Python strings are modelled as \<open>string\<close>, one \<open>char\<close> per code point, so the
  model covers text over the code points 0..255. Floats are modelled as \<open>real\<close>:
  scores, weights and progress values are compared and multiplied, never rounded.
\<close>

text \<open>Exceptions. \<open>OtherError\<close> stands for any \<open>Exception\<close> raised by a collaborator
  (text splitter, embedding provider, stores) or by the interpreter; it carries
  \<open>str(error)\<close>.\<close>

datatype error =
    EmbeddingError string
  | IngestionPipelineError string
  | OtherError string

fun str_error :: "error \<Rightarrow> string" where
  "str_error (EmbeddingError m) = m"
| "str_error (IngestionPipelineError m) = m"
| "str_error (OtherError m) = m"

text \<open>\<open>str.isspace\<close> on one code point below 256: tab, LF, VT, FF, CR, the
  separators 0x1c..0x1f, space, NEL (0x85) and the no-break space (0xa0).\<close>

definition isspace :: "char \<Rightarrow> bool" where
  "isspace c = (let n = (of_char c :: nat) in
     (9 \<le> n \<and> n \<le> 13) \<or> (28 \<le> n \<and> n \<le> 32) \<or> n = 133 \<or> n = 160)"

text \<open>\<open>s.strip()\<close>.\<close>

definition strip :: "string \<Rightarrow> string" where
  "strip s = rev (dropWhile isspace (rev (dropWhile isspace s)))"

text \<open>\<open>s[:k]\<close> for a Python int \<open>k\<close>: a negative \<open>k\<close> counts from the end.\<close>

definition py_prefix :: "int \<Rightarrow> 'a list \<Rightarrow> 'a list" where
  "py_prefix k s = (if 0 \<le> k then take (nat k) s else take (length s - nat (- k)) s)"

section \<open>Chunk segmenter (ingestion/chunker.py)\<close>

record ChunkingConfig =
  chunk_size :: int
  chunk_overlap :: int
  max_chunk_size :: int
  use_semantic_chunking :: bool
  preserve_structure :: bool
  min_chunk_size :: int

text \<open>The defaults of \<open>ChunkingConfig\<close> (config.py: CHUNK_SIZE 1000, CHUNK_OVERLAP 200,
  MAX_CHUNK_SIZE 2000).\<close>

definition default_chunking_config :: ChunkingConfig where
  "default_chunking_config =
     \<lparr>chunk_size = 1000, chunk_overlap = 200, max_chunk_size = 2000,
      use_semantic_chunking = True, preserve_structure = True, min_chunk_size = 100\<rparr>"

datatype DocumentStatus = UPLOADED | PROCESSING | COMPLETED | FAILED

text \<open>
  \<open>Document\<close> with the fields the pipeline and the chunker read or write.
  \<open>custom_fields\<close> is the dictionary \<open>document.metadata.custom_fields\<close>, restricted to
  string values (the extracted text is stored there under \<open>extracted_text\<close>).
\<close>

record Document =
  doc_document_id :: string
  doc_original_name :: string
  doc_status :: DocumentStatus
  doc_title :: string
  doc_file_type :: string
  doc_custom_fields :: "string \<rightharpoonup> string"
  doc_error_message :: "string option"

text \<open>
  \<open>DocumentChunk\<close>. \<open>dc_chunk_method\<close> is the \<open>chunk_method\<close> entry of the chunk's
  metadata; \<open>chunk_id\<close> (a fresh uuid4) and the metadata entries copied from the
  document and the clock are not modelled.
\<close>

record DocumentChunk =
  dc_document_id :: string
  dc_content :: string
  dc_chunk_index :: nat
  dc_start_char :: nat
  dc_end_char :: nat
  dc_embedding :: "real list option"
  dc_chunk_method :: string

text \<open>
  \<open>_post_process_chunks\<close>: the loop \<open>for i, chunk_text in enumerate(chunks)\<close>, with
  \<open>i\<close> the enumeration index and \<open>char_offset\<close> the running offset. A candidate whose
  stripped length is below \<open>min_chunk_size\<close> is skipped (\<open>continue\<close>), one longer than
  \<open>max_chunk_size\<close> is cut to \<open>chunk_text[:max_chunk_size]\<close>.
\<close>

fun post_process_loop ::
  "ChunkingConfig \<Rightarrow> Document \<Rightarrow> nat \<Rightarrow> nat \<Rightarrow> string list \<Rightarrow> DocumentChunk list" where
  "post_process_loop cfg document i char_offset [] = []"
| "post_process_loop cfg document i char_offset (chunk_text # rest) =
     (if int (length (strip chunk_text)) < min_chunk_size cfg
      then post_process_loop cfg document (Suc i) char_offset rest
      else
        let chunk_text' =
              (if int (length chunk_text) > max_chunk_size cfg
               then py_prefix (max_chunk_size cfg) chunk_text else chunk_text);
            chunk = \<lparr>dc_document_id = doc_document_id document,
                     dc_content = strip chunk_text',
                     dc_chunk_index = i,
                     dc_start_char = char_offset,
                     dc_end_char = char_offset + length chunk_text',
                     dc_embedding = None,
                     dc_chunk_method =
                       (if use_semantic_chunking cfg then ''semantic'' else ''basic'')\<rparr>
        in chunk # post_process_loop cfg document (Suc i) (char_offset + length chunk_text') rest)"

definition post_process_chunks ::
  "ChunkingConfig \<Rightarrow> Document \<Rightarrow> string list \<Rightarrow> DocumentChunk list" where
  "post_process_chunks cfg document chunks = post_process_loop cfg document 0 0 chunks"

text \<open>\<open>_optimize_chunk_boundaries\<close> builds a prompt and returns its input unchanged.\<close>

definition optimize_chunk_boundaries :: "string list \<Rightarrow> string list" where
  "optimize_chunk_boundaries chunks = chunks"

text \<open>
  The loop of \<open>_semantic_chunk\<close> over more than 20 basic chunks: arguments are the
  index \<open>i\<close>, \<open>len(basic_chunks)\<close>, \<open>current_batch\<close>, \<open>semantic_chunks\<close> and the chunks
  still to visit; batches of \<open>batch_size = 5\<close>.
\<close>

fun semantic_loop ::
  "nat \<Rightarrow> nat \<Rightarrow> string list \<Rightarrow> string list \<Rightarrow> string list \<Rightarrow> string list" where
  "semantic_loop i n current_batch semantic_chunks [] = semantic_chunks"
| "semantic_loop i n current_batch semantic_chunks (chunk # rest) =
     (let current_batch' = current_batch @ [chunk] in
      if length current_batch' \<ge> 5 \<or> i = n - 1
      then semantic_loop (Suc i) n []
             (semantic_chunks @ optimize_chunk_boundaries current_batch') rest
      else semantic_loop (Suc i) n current_batch' semantic_chunks rest)"

text \<open>
  The substitutions of \<open>_preprocess_text\<close>, in the order the code applies them:
  \<^item> \<open>Collapse_whitespace\<close>: \<^verbatim>\<open>re.sub(r'\s+', ' ', text)\<close>;
  \<^item> \<open>Normalize_line_breaks\<close>: \<^verbatim>\<open>re.sub(r'\n\s*\n', '\n\n', text)\<close>;
  \<^item> \<open>Remove_page_markers\<close>: \<^verbatim>\<open>re.sub(r'--- Page \d+ ---\n?', '', text)\<close>;
  \<^item> \<open>Remove_ocr_page_markers\<close>: \<^verbatim>\<open>re.sub(r'--- Page \d+ \(OCR\) ---\n?', '', text)\<close>;
  \<^item> \<open>Form_feed_to_newline\<close>: \<^verbatim>\<open>re.sub(r'\x0c', '\n', text)\<close>;
  \<^item> \<open>Non_ascii_to_space\<close>: \<^verbatim>\<open>re.sub(r'[^\x00-\x7F]+', ' ', text)\<close>;
  \<^item> \<open>Space_after_sentence\<close>: \<^verbatim>\<open>re.sub(r'([.!?])\s*([A-Z])', r'\1 \2', text)\<close>.
\<close>

datatype substitution =
    Collapse_whitespace
  | Normalize_line_breaks
  | Remove_page_markers
  | Remove_ocr_page_markers
  | Form_feed_to_newline
  | Non_ascii_to_space
  | Space_after_sentence

text \<open>
  The libraries the chunker calls, taken as parameters.
  \<^item> \<open>re_sub s text\<close>: what \<open>re.sub\<close> returns for the pattern and the replacement of
    the substitution \<open>s\<close>, applied to \<open>text\<close>.
  \<^item> \<open>split_text\<close>: what langchain's \<open>RecursiveCharacterTextSplitter.split_text\<close>
    returns for a text (the basic split).
  \<^item> \<open>split_raises k\<close>: the exception the splitter raises at its \<open>k\<close>-th call of one
    \<open>chunk_document\<close> run (\<open>None\<close>: the call returns).
\<close>

record Libraries =
  re_sub :: "substitution \<Rightarrow> string \<Rightarrow> string"
  split_text :: "string \<Rightarrow> string list"
  split_raises :: "nat \<Rightarrow> error option"

text \<open>\<open>_preprocess_text\<close>: the seven substitutions, then \<open>strip\<close>. A substitution of a
  valid pattern in a string does not raise, so the handler that returns the text
  unchanged is never entered.\<close>

definition preprocess_text :: "Libraries \<Rightarrow> string \<Rightarrow> string" where
  "preprocess_text lib text =
     (let text1 = re_sub lib Collapse_whitespace text;
          text2 = re_sub lib Normalize_line_breaks text1;
          text3 = re_sub lib Remove_page_markers text2;
          text4 = re_sub lib Remove_ocr_page_markers text3;
          text5 = re_sub lib Form_feed_to_newline text4;
          text6 = re_sub lib Non_ascii_to_space text5;
          text7 = re_sub lib Space_after_sentence text6
      in strip text7)"

definition call_splitter :: "Libraries \<Rightarrow> nat \<Rightarrow> string \<Rightarrow> error + string list" where
  "call_splitter sp k text =
     (case split_raises sp k of Some e \<Rightarrow> Inl e | None \<Rightarrow> Inr (split_text sp text))"

text \<open>\<open>_semantic_chunk\<close>: the \<open>try\<close> body is the first splitter call; its handler calls
  the splitter again; an exception of that second call propagates.\<close>

definition semantic_chunk :: "Libraries \<Rightarrow> string \<Rightarrow> error + string list" where
  "semantic_chunk sp text =
     (case call_splitter sp 0 text of
        Inr basic_chunks \<Rightarrow>
          if length basic_chunks \<le> 20 then Inr basic_chunks
          else Inr (semantic_loop 0 (length basic_chunks) [] [] basic_chunks)
      | Inl error \<Rightarrow> call_splitter sp 1 text)"

definition basic_chunk :: "Libraries \<Rightarrow> string \<Rightarrow> error + string list" where
  "basic_chunk sp text = call_splitter sp 0 text"

text \<open>\<open>document.metadata.custom_fields.get("extracted_text", "")\<close>.\<close>

definition extracted_text :: "Document \<Rightarrow> string" where
  "extracted_text document =
     (case doc_custom_fields document ''extracted_text'' of None \<Rightarrow> [] | Some t \<Rightarrow> t)"

text \<open>The \<open>try\<close> body of \<open>chunk_document\<close>: \<open>Inl\<close> is an exception that reaches its
  handler.\<close>

definition chunk_document_try ::
  "ChunkingConfig \<Rightarrow> Libraries \<Rightarrow> Document \<Rightarrow> error + DocumentChunk list" where
  "chunk_document_try cfg sp document =
     (let text_content = extracted_text document
      in if strip text_content = [] then Inr []
         else
           let preprocessed_text = preprocess_text sp text_content in
           case (if use_semantic_chunking cfg then semantic_chunk sp preprocessed_text
                 else basic_chunk sp preprocessed_text) of
             Inl error \<Rightarrow> Inl error
           | Inr chunks \<Rightarrow> Inr (post_process_chunks cfg document chunks))"

text \<open>\<open>chunk_document\<close>: \<open>except Exception: return []\<close>.\<close>

definition chunk_document ::
  "ChunkingConfig \<Rightarrow> Libraries \<Rightarrow> Document \<Rightarrow> DocumentChunk list" where
  "chunk_document cfg sp document =
     (case chunk_document_try cfg sp document of
        Inl error \<Rightarrow> []
      | Inr processed_chunks \<Rightarrow> processed_chunks)"

section \<open>Embedding batcher (agent/embeddings.py)\<close>

type_synonym vec = "real list"

text \<open>\<open>text.split()\<close>: the maximal runs of non-whitespace characters. \<open>word\<close> is the
  run being read.\<close>

fun split_ws :: "string \<Rightarrow> string \<Rightarrow> string list" where
  "split_ws word [] = (if word = [] then [] else [word])"
| "split_ws word (c # cs) =
     (if isspace c then (if word = [] then split_ws [] cs else word # split_ws [] cs)
      else split_ws (word @ [c]) cs)"

definition py_split :: "string \<Rightarrow> string list" where
  "py_split text = split_ws [] text"

text \<open>\<open>" ".join(words)\<close>.\<close>

fun join_space :: "string list \<Rightarrow> string" where
  "join_space [] = []"
| "join_space [w] = w"
| "join_space (w # ws) = w @ '' '' @ join_space ws"

text \<open>\<open>_clean_text\<close>: collapse whitespace, cut at \<open>max_chars = 8000\<close>.\<close>

definition clean_text :: "string \<Rightarrow> string" where
  "clean_text text =
     (if text = [] then []
      else let cleaned = join_space (py_split text)
           in if length cleaned > 8000 then take 8000 cleaned else cleaned)"

text \<open>The generator's configuration (\<open>self.dimensions\<close>, \<open>self.batch_size\<close>; Python
  ints, read from the environment).\<close>

record EmbeddingGenerator =
  dimensions :: int
  batch_size :: int

text \<open>\<open>[0.0] * self.dimensions\<close>: empty when \<open>dimensions\<close> is not positive.\<close>

definition zero_embedding :: "EmbeddingGenerator \<Rightarrow> vec" where
  "zero_embedding g = replicate (nat (dimensions g)) 0"

text \<open>
  The embedding provider: \<open>client k input\<close> is the outcome of the call
  \<open>self.client.embeddings.create(input=input)\<close> issued for batch number \<open>k\<close> (counted
  from 1), either an exception or the list \<open>[item.embedding for item in response.data]\<close>.
\<close>

type_synonym embedding_client = "nat \<Rightarrow> string list \<Rightarrow> error + vec list"

text \<open>
  The loop \<open>for original_text, cleaned_text in zip(batch, cleaned_batch)\<close>; the first
  argument holds \<open>batch_embeddings[embedding_idx:]\<close>. It returns what was appended to
  \<open>embeddings\<close> and whether it ran to the end: reading \<open>batch_embeddings\<close> past its end
  raises IndexError after the earlier appends.
\<close>

fun assign_batch :: "vec \<Rightarrow> vec list \<Rightarrow> string list \<Rightarrow> vec list \<times> bool" where
  "assign_batch z batch_embeddings [] = ([], True)"
| "assign_batch z batch_embeddings (cleaned_text # rest) =
     (if strip cleaned_text \<noteq> []
      then (case batch_embeddings of
              [] \<Rightarrow> ([], False)
            | e # es \<Rightarrow> (case assign_batch z es rest of (out, ok) \<Rightarrow> (e # out, ok)))
      else (case assign_batch z batch_embeddings rest of (out, ok) \<Rightarrow> (z # out, ok)))"

text \<open>
  The optional progress callback of \<open>generate_embeddings_batch\<close>: \<open>None\<close>, or a
  callable; \<open>f batch_num total_batches\<close> is the exception the call
  \<open>progress_callback(batch_num, total_batches)\<close> raises (\<open>None\<close>: the call returns).
\<close>

type_synonym batch_callback = "(nat \<Rightarrow> int \<Rightarrow> error option) option"

text \<open>
  One iteration of the batch loop: what it appends to \<open>embeddings\<close> and the calls it
  makes to the progress callback, as pairs \<open>(batch_num, total_batches)\<close>. An
  all-empty batch gets zero vectors and no callback (\<open>continue\<close>). The provider call,
  the assignment loop and the callback call are inside the inner \<open>try\<close>: an exception
  of any of them adds \<open>len(batch)\<close> zero vectors to what was appended before it.
\<close>

definition process_batch ::
  "EmbeddingGenerator \<Rightarrow> embedding_client \<Rightarrow> batch_callback \<Rightarrow> int \<Rightarrow> nat \<Rightarrow> string list
     \<Rightarrow> vec list \<times> (nat \<times> int) list" where
  "process_batch g client progress_callback total_batches batch_num batch =
     (let cleaned_batch = map clean_text batch;
          non_empty_batch = filter (\<lambda>text. strip text \<noteq> []) cleaned_batch
      in if non_empty_batch = []
         then (replicate (length batch) (zero_embedding g), [])
         else (case client batch_num non_empty_batch of
                 Inl batch_error \<Rightarrow> (replicate (length batch) (zero_embedding g), [])
               | Inr batch_embeddings \<Rightarrow>
                   (case assign_batch (zero_embedding g) batch_embeddings cleaned_batch of
                      (out, False) \<Rightarrow>
                        (out @ replicate (length batch) (zero_embedding g), [])
                    | (out, True) \<Rightarrow>
                        (case progress_callback of
                           None \<Rightarrow> (out, [])
                         | Some f \<Rightarrow>
                             (case f batch_num total_batches of
                                None \<Rightarrow> (out, [(batch_num, total_batches)])
                              | Some batch_error \<Rightarrow>
                                  (out @ replicate (length batch) (zero_embedding g),
                                   [(batch_num, total_batches)]))))))"

text \<open>The loop \<open>for i in range(0, len(texts), self.batch_size)\<close> for a positive batch
  size \<open>b\<close>, from index \<open>i\<close> on.\<close>

function batch_loop ::
  "EmbeddingGenerator \<Rightarrow> embedding_client \<Rightarrow> batch_callback \<Rightarrow> int \<Rightarrow> nat \<Rightarrow> string list
     \<Rightarrow> nat \<Rightarrow> vec list \<times> (nat \<times> int) list" where
  "batch_loop g client progress_callback total_batches b texts i =
     (if 0 < b \<and> i < length texts
      then (case process_batch g client progress_callback total_batches (i div b + 1)
                   (take b (drop i texts)) of
              (out, calls) \<Rightarrow>
                (case batch_loop g client progress_callback total_batches b texts (i + b) of
                   (outs, callss) \<Rightarrow> (out @ outs, calls @ callss)))
      else ([], []))"
  by pat_completeness auto
termination
  by (relation "measure (\<lambda>(g, client, progress_callback, total_batches, b, texts, i).
        length texts - i)") auto

text \<open>The equation of \<open>batch_loop\<close> rewrites the function in terms of itself, so it is
  applied by hand.\<close>

declare batch_loop.simps [simp del]

text \<open>
  \<open>generate_embeddings_batch\<close>: the embeddings and the progress-callback calls, or the
  \<open>EmbeddingError\<close> of the outer handler. A batch size of 0 raises ZeroDivisionError
  when \<open>total_batches\<close> is computed; with a negative batch size the range is empty.
\<close>

definition zero_division_message :: string where
  "zero_division_message = ''integer division or modulo by zero''"

definition generate_embeddings_batch ::
  "EmbeddingGenerator \<Rightarrow> embedding_client \<Rightarrow> batch_callback \<Rightarrow> string list
     \<Rightarrow> error + (vec list \<times> (nat \<times> int) list)" where
  "generate_embeddings_batch g client progress_callback texts =
     (if batch_size g = 0
      then Inl (EmbeddingError (''Failed to generate batch embeddings: '' @ zero_division_message))
      else let total_batches = (int (length texts) + batch_size g - 1) div batch_size g
           in if batch_size g < 0 then Inr ([], [])
              else Inr (batch_loop g client progress_callback total_batches
                          (nat (batch_size g)) texts 0))"

section \<open>Pipeline orchestrator (ingestion/pipeline.py)\<close>

record ProcessingResult =
  pr_job_id :: string
  pr_document_id :: string
  pr_chunks_created :: nat
  pr_entities_extracted :: nat
  pr_relationships_created :: nat
  pr_processing_time_ms :: real
  pr_success :: bool
  pr_error_message :: "string option"

text \<open>\<open>self.stats\<close>.\<close>

record PipelineStats =
  documents_processed :: nat
  chunks_created :: nat
  embeddings_generated :: nat
  entities_extracted :: nat
  relationships_created :: nat
  total_processing_time :: real

text \<open>
  What one \<open>process_document\<close> run meets outside the orchestrator:
  \<^item> \<open>job_id\<close> and \<open>elapsed_ms\<close>: the job identifier built from the start time and the
    time \<open>datetime.now() - start_time\<close> in milliseconds;
  \<^item> \<open>process_pdf\<close>: the outcome of \<open>self.pdf_processor.process_pdf\<close> for the file;
  \<^item> the chunker (its configuration and libraries), the embedding generator and its
    provider;
  \<^item> \<open>add_documents\<close> and \<open>add_episode\<close>: the outcomes of the vector-store and
    graph-store writes (\<open>add_episode\<close> receives the content, the source and the
    episode id).
\<close>

record PipelineEnv =
  job_id :: string
  elapsed_ms :: real
  process_pdf :: "error + Document"
  chunking_config :: ChunkingConfig
  libraries :: Libraries
  embedding_generator :: EmbeddingGenerator
  embedding_client :: embedding_client
  add_documents :: "DocumentChunk list \<Rightarrow> error + bool"
  add_episode :: "string \<Rightarrow> string \<Rightarrow> string \<Rightarrow> error + string"

text \<open>\<open>str(n)\<close> of a natural number, as the f-strings of the progress messages render
  it.\<close>

definition digit_char :: "nat \<Rightarrow> char" where
  "digit_char d = char_of (48 + d)"

function str_nat :: "nat \<Rightarrow> string" where
  "str_nat n = (if n < 10 then [digit_char n] else str_nat (n div 10) @ [digit_char (n mod 10)])"
  by pat_completeness auto
termination
  by (relation "measure id") auto

declare str_nat.simps [simp del]

definition str_int :: "int \<Rightarrow> string" where
  "str_int i = (if i < 0 then CHR ''-'' # str_nat (nat (- i)) else str_nat (nat i))"

text \<open>
  The optional progress callback of \<open>process_document\<close>: \<open>None\<close>, or a callable;
  \<open>f message progress\<close> is the exception the call \<open>progress_callback(message, progress)\<close>
  raises (\<open>None\<close>: the call returns). A call is recorded as the pair of its arguments.
\<close>

type_synonym progress_callback = "(string \<Rightarrow> real \<Rightarrow> error option) option"
type_synonym progress_call = "string \<times> real"

text \<open>\<open>if progress_callback: progress_callback(message, progress)\<close>: the exception the
  call raises, if any, and the calls delivered so far.\<close>

definition report ::
  "progress_callback \<Rightarrow> progress_call \<Rightarrow> progress_call list
     \<Rightarrow> error option \<times> progress_call list" where
  "report cb call delivered =
     (case cb of
        None \<Rightarrow> (None, delivered)
      | Some f \<Rightarrow> (f (fst call) (snd call), delivered @ [call]))"

text \<open>\<open>embedding_progress(current, total)\<close>: the progress value and the message passed
  on to the progress callback. \<open>total\<close> is \<open>total_batches\<close>, at least 1 whenever a batch
  is processed, so the division does not raise.\<close>

definition embedding_progress :: "nat \<times> int \<Rightarrow> real" where
  "embedding_progress ct = 45 + (real (fst ct) / real_of_int (snd ct)) * 15"

definition embedding_message :: "nat \<times> int \<Rightarrow> string" where
  "embedding_message ct =
     ''Generating embeddings ('' @ str_nat (fst ct) @ ''/'' @ str_int (snd ct) @ '')''"

text \<open>The closure \<open>embedding_progress\<close> as the callback handed to
  \<open>generate_embeddings_batch\<close>: it calls the progress callback when there is one.\<close>

definition embedding_progress_callback :: "progress_callback \<Rightarrow> nat \<Rightarrow> int \<Rightarrow> error option" where
  "embedding_progress_callback cb current total_batches =
     (case cb of
        None \<Rightarrow> None
      | Some f \<Rightarrow>
          f (embedding_message (current, total_batches))
            (embedding_progress (current, total_batches)))"

text \<open>The calls the progress callback receives for the calls made to that closure.\<close>

definition embedding_calls :: "progress_callback \<Rightarrow> (nat \<times> int) list \<Rightarrow> progress_call list" where
  "embedding_calls cb calls =
     (case cb of
        None \<Rightarrow> []
      | Some f \<Rightarrow> map (\<lambda>ct. (embedding_message ct, embedding_progress ct)) calls)"

text \<open>\<open>for chunk, embedding in zip(chunks, embeddings): chunk.embedding = embedding\<close>.\<close>

fun assign_embeddings :: "DocumentChunk list \<Rightarrow> vec list \<Rightarrow> DocumentChunk list" where
  "assign_embeddings (chunk # chunks) (embedding # embeddings) =
     chunk\<lparr>dc_embedding := Some embedding\<rparr> # assign_embeddings chunks embeddings"
| "assign_embeddings chunks embeddings = chunks"

text \<open>\<open>len([c for c in chunks if c.embedding])\<close>: an absent or empty embedding is
  falsy.\<close>

definition count_embedded :: "DocumentChunk list \<Rightarrow> nat" where
  "count_embedded chunks =
     length (filter (\<lambda>c. dc_embedding c \<noteq> None \<and> dc_embedding c \<noteq> Some []) chunks)"

text \<open>
  What \<open>process_document\<close> does to the extracted document before chunking:
  \<open>if metadata: document.metadata.custom_fields.update(metadata)\<close> (an absent or
  empty dictionary changes nothing) and \<open>document.status = PROCESSING\<close>.
\<close>

definition prepare_document :: "Document \<Rightarrow> (string \<rightharpoonup> string) option \<Rightarrow> Document" where
  "prepare_document document0 metadata =
     document0
       \<lparr>doc_custom_fields :=
          (case metadata of
             None \<Rightarrow> doc_custom_fields document0
           | Some m \<Rightarrow> doc_custom_fields document0 ++ m),
        doc_status := PROCESSING\<rparr>"

text \<open>The statistics after a completed run (\<open>self.stats[...] += ...\<close>).\<close>

definition update_stats :: "PipelineStats \<Rightarrow> DocumentChunk list \<Rightarrow> real \<Rightarrow> PipelineStats" where
  "update_stats stats chunks processing_time =
     stats\<lparr>documents_processed := documents_processed stats + 1,
           chunks_created := chunks_created stats + length chunks,
           embeddings_generated := embeddings_generated stats + count_embedded chunks,
           entities_extracted := entities_extracted stats + 1,
           relationships_created := relationships_created stats + 0,
           total_processing_time := total_processing_time stats + processing_time\<rparr>"

text \<open>
  The \<open>try\<close> body of \<open>process_document\<close>, one definition per step of the source,
  last step first. Each gives the successful result, or (\<open>Inl\<close>) the exception that
  reaches the handler: an exception of a stage, the \<open>IngestionPipelineError\<close> raised
  when there is no chunk, or an exception of a progress-callback call. With it come the
  local variable \<open>document\<close> when it was bound, the callback calls delivered so far,
  and the statistics. An exception is an \<open>Exception\<close>; interrupts and task cancellation
  are outside the model.
\<close>

type_synonym try_outcome =
  "(error + ProcessingResult) \<times> Document option \<times> progress_call list \<times> PipelineStats"

text \<open>Step 6, finalize: the statistics are updated before the last callback call.\<close>

definition finalize ::
  "PipelineEnv \<Rightarrow> progress_callback \<Rightarrow> Document \<Rightarrow> DocumentChunk list
     \<Rightarrow> progress_call list \<Rightarrow> PipelineStats \<Rightarrow> try_outcome" where
  "finalize env cb document chunks delivered stats =
     (case report cb (''Finalizing processing...'', 95) delivered of
        (Some error, delivered') \<Rightarrow> (Inl error, Some document, delivered', stats)
      | (None, delivered') \<Rightarrow>
          let stats' = update_stats stats chunks (elapsed_ms env);
              result = \<lparr>pr_job_id = job_id env,
                         pr_document_id = doc_document_id document,
                         pr_chunks_created = length chunks,
                         pr_entities_extracted = 1,
                         pr_relationships_created = 0,
                         pr_processing_time_ms = elapsed_ms env,
                         pr_success = True,
                         pr_error_message = None\<rparr>
          in (case report cb (''Processing completed successfully'', 100) delivered' of
                (Some error, delivered'') \<Rightarrow> (Inl error, Some document, delivered'', stats')
              | (None, delivered'') \<Rightarrow> (Inr result, Some document, delivered'', stats')))"

text \<open>Step 5, build the knowledge graph.\<close>

definition build_knowledge_graph ::
  "PipelineEnv \<Rightarrow> progress_callback \<Rightarrow> Document \<Rightarrow> DocumentChunk list
     \<Rightarrow> progress_call list \<Rightarrow> PipelineStats \<Rightarrow> try_outcome" where
  "build_knowledge_graph env cb document chunks delivered stats =
     (case report cb (''Building knowledge graph...'', 75) delivered of
        (Some error, delivered') \<Rightarrow> (Inl error, Some document, delivered', stats)
      | (None, delivered') \<Rightarrow>
          (case add_episode env (extracted_text document) (doc_original_name document)
                  (doc_document_id document) of
             Inl error \<Rightarrow> (Inl error, Some document, delivered', stats)
           | Inr episode_id \<Rightarrow>
               (case report cb (''Knowledge graph completed'', 90) delivered' of
                  (Some error, delivered'') \<Rightarrow> (Inl error, Some document, delivered'', stats)
                | (None, delivered'') \<Rightarrow> finalize env cb document chunks delivered'' stats)))"

text \<open>Step 4, store in the vector database.\<close>

definition store_vectors ::
  "PipelineEnv \<Rightarrow> progress_callback \<Rightarrow> Document \<Rightarrow> DocumentChunk list
     \<Rightarrow> progress_call list \<Rightarrow> PipelineStats \<Rightarrow> try_outcome" where
  "store_vectors env cb document chunks delivered stats =
     (case report cb (''Storing in vector database...'', 65) delivered of
        (Some error, delivered') \<Rightarrow> (Inl error, Some document, delivered', stats)
      | (None, delivered') \<Rightarrow>
          (case add_documents env chunks of
             Inl error \<Rightarrow> (Inl error, Some document, delivered', stats)
           | Inr vector_success \<Rightarrow>
               (case report cb (''Vector storage completed'', 70) delivered' of
                  (Some error, delivered'') \<Rightarrow> (Inl error, Some document, delivered'', stats)
                | (None, delivered'') \<Rightarrow>
                    build_knowledge_graph env cb document chunks delivered'' stats)))"

text \<open>Step 3, generate the embeddings. The closure \<open>embedding_progress\<close> is always
  handed to \<open>generate_embeddings_batch\<close>, which contains its exceptions.\<close>

definition generate_embeddings ::
  "PipelineEnv \<Rightarrow> progress_callback \<Rightarrow> Document \<Rightarrow> DocumentChunk list
     \<Rightarrow> progress_call list \<Rightarrow> PipelineStats \<Rightarrow> try_outcome" where
  "generate_embeddings env cb document chunks delivered stats =
     (case report cb (''Generating embeddings...'', 45) delivered of
        (Some error, delivered') \<Rightarrow> (Inl error, Some document, delivered', stats)
      | (None, delivered') \<Rightarrow>
          (case generate_embeddings_batch (embedding_generator env) (embedding_client env)
                  (Some (embedding_progress_callback cb)) (map dc_content chunks) of
             Inl error \<Rightarrow> (Inl error, Some document, delivered', stats)
           | Inr (embeddings, calls) \<Rightarrow>
               (case report cb (''Embeddings generated'', 60)
                       (delivered' @ embedding_calls cb calls) of
                  (Some error, delivered'') \<Rightarrow> (Inl error, Some document, delivered'', stats)
                | (None, delivered'') \<Rightarrow>
                    store_vectors env cb document (assign_embeddings chunks embeddings)
                      delivered'' stats)))"

text \<open>Step 2, chunk the document: no chunk is an \<open>IngestionPipelineError\<close>.\<close>

definition chunk_step ::
  "PipelineEnv \<Rightarrow> progress_callback \<Rightarrow> Document
     \<Rightarrow> progress_call list \<Rightarrow> PipelineStats \<Rightarrow> try_outcome" where
  "chunk_step env cb document delivered stats =
     (case report cb (''Creating semantic chunks...'', 25) delivered of
        (Some error, delivered') \<Rightarrow> (Inl error, Some document, delivered', stats)
      | (None, delivered') \<Rightarrow>
          let chunks = chunk_document (chunking_config env) (libraries env) document
          in if chunks = []
             then (Inl (IngestionPipelineError ''No chunks created from document''),
                   Some document, delivered', stats)
             else (case report cb
                          (''Created '' @ str_nat (length chunks) @ '' chunks'', 40)
                          delivered' of
                     (Some error, delivered'') \<Rightarrow>
                       (Inl error, Some document, delivered'', stats)
                   | (None, delivered'') \<Rightarrow>
                       generate_embeddings env cb document chunks delivered'' stats))"

text \<open>The start of the \<open>try\<close> body and step 1, the extraction. \<open>metadata\<close> is the
  optional dictionary merged into \<open>custom_fields\<close>.\<close>

definition process_document_try ::
  "PipelineEnv \<Rightarrow> progress_callback \<Rightarrow> (string \<rightharpoonup> string) option \<Rightarrow> PipelineStats
     \<Rightarrow> try_outcome" where
  "process_document_try env cb metadata stats =
     (case report cb (''Starting processing...'', 0) [] of
        (Some error, delivered) \<Rightarrow> (Inl error, None, delivered, stats)
      | (None, delivered) \<Rightarrow>
     (case report cb (''Extracting text from PDF...'', 10) delivered of
        (Some error, delivered') \<Rightarrow> (Inl error, None, delivered', stats)
      | (None, delivered') \<Rightarrow>
          (case process_pdf env of
             Inl error \<Rightarrow> (Inl error, None, delivered', stats)
           | Inr document0 \<Rightarrow>
               let document = prepare_document document0 metadata
               in (case report cb (''Text extraction completed'', 20) delivered' of
                     (Some error, delivered'') \<Rightarrow>
                       (Inl error, Some document, delivered'', stats)
                   | (None, delivered'') \<Rightarrow>
                       chunk_step env cb document delivered'' stats))))"

text \<open>
  The \<open>except Exception\<close> handler of \<open>process_document\<close>: it builds the failed result
  and then calls the progress callback with \<open>100.0\<close>. That call is not guarded: when
  it raises, the exception leaves \<open>process_document\<close> (\<open>Inl\<close>) and no result is
  returned.
\<close>

definition processing_failed ::
  "PipelineEnv \<Rightarrow> progress_callback \<Rightarrow> Document option \<Rightarrow> error \<Rightarrow> progress_call list
     \<Rightarrow> PipelineStats
     \<Rightarrow> (error + ProcessingResult) \<times> progress_call list \<times> PipelineStats" where
  "processing_failed env cb document error delivered stats =
     (let result =
            \<lparr>pr_job_id = job_id env,
             pr_document_id =
               (case document of None \<Rightarrow> ''unknown'' | Some d \<Rightarrow> doc_document_id d),
             pr_chunks_created = 0,
             pr_entities_extracted = 0,
             pr_relationships_created = 0,
             pr_processing_time_ms = elapsed_ms env,
             pr_success = False,
             pr_error_message = Some (str_error error)\<rparr>
      in case report cb (''Processing failed: '' @ str_error error, 100) delivered of
           (Some callback_error, delivered') \<Rightarrow> (Inl callback_error, delivered', stats)
         | (None, delivered') \<Rightarrow> (Inr result, delivered', stats))"

text \<open>
  \<open>process_document\<close>: the returned \<open>ProcessingResult\<close>, or (\<open>Inl\<close>) the exception that
  leaves the function; the calls the progress callback received, in order; and the
  statistics after the run.
\<close>

definition process_document ::
  "PipelineEnv \<Rightarrow> progress_callback \<Rightarrow> (string \<rightharpoonup> string) option \<Rightarrow> PipelineStats
     \<Rightarrow> (error + ProcessingResult) \<times> progress_call list \<times> PipelineStats" where
  "process_document env cb metadata stats =
     (case process_document_try env cb metadata stats of
        (Inr result, document, delivered, stats') \<Rightarrow> (Inr result, delivered, stats')
      | (Inl error, document, delivered, stats') \<Rightarrow>
          processing_failed env cb document error delivered stats')"

section \<open>Hybrid fusion engine (agent/tools.py)\<close>

text \<open>Values of the free-form dictionaries (\<open>Dict[str, Any]\<close>).\<close>

datatype pyval =
    PNone
  | PBool bool
  | PInt int
  | PFloat real
  | PStr string
  | PList "pyval list"
  | PDict "(string \<times> pyval) list"

record ChunkResult =
  cr_chunk_id :: string
  cr_document_id :: string
  cr_content :: string
  cr_score :: real
  cr_metadata :: "(string \<times> pyval) list"
  cr_document_title :: "string option"
  cr_document_source :: "string option"
  cr_chunk_index :: "int option"

record GraphResult =
  gr_entity_id :: string
  gr_entity_name :: string
  gr_entity_type :: string
  gr_relationships :: pyval
  gr_properties :: pyval
  gr_score :: "real option"

text \<open>
  \<open>ChunkResult\<close> objects are mutable and passed by reference: the store holds the
  objects, a reference is an index into it, and a list of results is a list of
  references. Creating an object appends it to the store.
\<close>

type_synonym ref = nat
type_synonym store = "ChunkResult list"

definition new_object :: "ChunkResult \<Rightarrow> store \<Rightarrow> ref \<times> store" where
  "new_object obj h = (length h, h @ [obj])"

text \<open>\<open>result.score = v\<close>.\<close>

definition set_score :: "ref \<Rightarrow> real \<Rightarrow> store \<Rightarrow> store" where
  "set_score r v h = h[r := (h ! r)\<lparr>cr_score := v\<rparr>]"

text \<open>\<open>graph_result.score or 0.5\<close>: Python's \<open>or\<close> yields its right operand when the
  left one is falsy, that is \<open>None\<close> or \<open>0.0\<close>.\<close>

definition score_or_default :: "real option \<Rightarrow> real" where
  "score_or_default s = (case s of None \<Rightarrow> 0.5 | Some v \<Rightarrow> if v = 0 then 0.5 else v)"

text \<open>The first loop of \<open>_combine_search_results\<close>:
  \<open>result.score = result.score * vector_weight\<close> for each vector result.\<close>

fun weight_vector_results :: "real \<Rightarrow> ref list \<Rightarrow> store \<Rightarrow> store" where
  "weight_vector_results vector_weight [] h = h"
| "weight_vector_results vector_weight (result # rest) h =
     weight_vector_results vector_weight rest
       (set_score result (cr_score (h ! result) * vector_weight) h)"

text \<open>The pseudo-chunk built from one graph result. \<open>py_str\<close> is Python's \<open>str\<close> of a
  dictionary or list, as the f-string renders it (a parameter).\<close>

definition graph_chunk_result :: "(pyval \<Rightarrow> string) \<Rightarrow> real \<Rightarrow> GraphResult \<Rightarrow> ChunkResult" where
  "graph_chunk_result py_str graph_weight graph_result =
     \<lparr>cr_chunk_id = gr_entity_id graph_result,
      cr_document_id = ''knowledge_graph'',
      cr_content =
        ''Entity: '' @ gr_entity_name graph_result @ '' ('' @ gr_entity_type graph_result
          @ '')'' @ [CHR 0x0A]
          @ ''Properties: '' @ py_str (gr_properties graph_result) @ [CHR 0x0A]
          @ ''Relationships: '' @ py_str (gr_relationships graph_result),
      cr_score = score_or_default (gr_score graph_result) * graph_weight,
      cr_metadata =
        [(''source'', PStr ''knowledge_graph''),
         (''entity_type'', PStr (gr_entity_type graph_result)),
         (''entity_name'', PStr (gr_entity_name graph_result)),
         (''relationships'', gr_relationships graph_result),
         (''properties'', gr_properties graph_result)],
      cr_document_title = Some (''Knowledge Graph: '' @ gr_entity_name graph_result),
      cr_document_source = Some ''knowledge_graph'',
      cr_chunk_index = None\<rparr>"

text \<open>The second loop: one new object per graph result, in order.\<close>

fun project_graph_results ::
  "(pyval \<Rightarrow> string) \<Rightarrow> real \<Rightarrow> GraphResult list \<Rightarrow> store \<Rightarrow> ref list \<times> store" where
  "project_graph_results py_str graph_weight [] h = ([], h)"
| "project_graph_results py_str graph_weight (graph_result # rest) h =
     (case new_object (graph_chunk_result py_str graph_weight graph_result) h of
        (r, h') \<Rightarrow>
          (case project_graph_results py_str graph_weight rest h' of
             (rs, h'') \<Rightarrow> (r # rs, h'')))"

text \<open>\<open>combined_results.sort(key=lambda x: x.score, reverse=True)\<close>: a stable sort by
  descending score.\<close>

definition sort_by_score_desc :: "store \<Rightarrow> ref list \<Rightarrow> ref list" where
  "sort_by_score_desc h rs = sort_key (\<lambda>r. - cr_score (h ! r)) rs"

definition combine_search_results ::
  "(pyval \<Rightarrow> string) \<Rightarrow> ref list \<Rightarrow> GraphResult list \<Rightarrow> real \<Rightarrow> real \<Rightarrow> store
     \<Rightarrow> ref list \<times> store" where
  "combine_search_results py_str vector_results graph_results vector_weight graph_weight h =
     (let h1 = weight_vector_results vector_weight vector_results h in
      case project_graph_results py_str graph_weight graph_results h1 of
        (graph_refs, h2) \<Rightarrow> (sort_by_score_desc h2 (vector_results @ graph_refs), h2))"



text \<open>The two loops of \<open>_normalize_scores\<close>, each overwriting \<open>result.score\<close>.\<close>

fun set_all_one :: "ref list \<Rightarrow> store \<Rightarrow> store" where
  "set_all_one [] h = h"
| "set_all_one (result # rest) h = set_all_one rest (set_score result 1 h)"

fun rescale_all :: "real \<Rightarrow> real \<Rightarrow> ref list \<Rightarrow> store \<Rightarrow> store" where
  "rescale_all min_score score_range [] h = h"
| "rescale_all min_score score_range (result # rest) h =
     rescale_all min_score score_range rest
       (set_score result ((cr_score (h ! result) - min_score) / score_range) h)"







section \<open>Concrete inputs\<close>

text \<open>Inputs at which the results below are evaluated.\<close>

definition example_document :: Document where
  "example_document =
     \<lparr>doc_document_id = ''doc-1'', doc_original_name = ''report.pdf'', doc_status = UPLOADED,
      doc_title = ''Report'', doc_file_type = ''pdf'',
      doc_custom_fields = [''extracted_text'' \<mapsto> replicate 120 (CHR ''a'')],
      doc_error_message = None\<rparr>"

text \<open>A generator with two dimensions and batches of two texts; a provider that
  answers each text with its length and a constant, and one whose second call fails.\<close>

definition example_generator :: EmbeddingGenerator where
  "example_generator = \<lparr>dimensions = 2, batch_size = 2\<rparr>"

definition example_vector :: "string \<Rightarrow> vec" where
  "example_vector t = [real (length t), 1]"

definition answering_client :: embedding_client where
  "answering_client k xs = Inr (map example_vector xs)"


text \<open>Libraries whose substitutions change nothing and whose splitter returns the
  whole text as one piece: one whose every split call raises, one whose first split
  call raises and whose later calls return.\<close>

definition failing_splitter :: Libraries where
  "failing_splitter =
     \<lparr>re_sub = (\<lambda>s t. t), split_text = (\<lambda>t. [t]),
      split_raises = (\<lambda>k. Some (OtherError ''splitter failed''))\<rparr>"

definition flaky_splitter :: Libraries where
  "flaky_splitter =
     \<lparr>re_sub = (\<lambda>s t. t), split_text = (\<lambda>t. [t]),
      split_raises = (\<lambda>k. if k = 0 then Some (OtherError ''splitter failed'') else None)\<rparr>"

text \<open>A document with no extracted text, and the environments of two runs: every
  collaborator answers; the splitter returns three copies of the text, so there are
  three chunks and two embedding batches.\<close>

definition blank_document :: Document where
  "blank_document = example_document\<lparr>doc_custom_fields := Map.empty\<rparr>"

definition three_piece_splitter :: Libraries where
  "three_piece_splitter =
     \<lparr>re_sub = (\<lambda>s t. t), split_text = (\<lambda>t. [t, t, t]),
      split_raises = (\<lambda>k. None)\<rparr>"

definition example_env :: PipelineEnv where
  "example_env =
     \<lparr>job_id = ''job_1700000000'', elapsed_ms = 1500,
      process_pdf = Inr example_document,
      chunking_config = default_chunking_config,
      libraries = three_piece_splitter,
      embedding_generator = example_generator,
      embedding_client = answering_client,
      add_documents = (\<lambda>chunks. Inr True),
      add_episode = (\<lambda>content source episode_id. Inr episode_id)\<rparr>"

definition blank_env :: PipelineEnv where
  "blank_env = example_env\<lparr>process_pdf := Inr blank_document\<rparr>"

text \<open>Progress callbacks: one that returns from every call, one that raises whenever
  it is called with the progress \<open>100.0\<close>.\<close>

text \<open>Progress callbacks: of \<open>generate_embeddings_batch\<close>, one that raises at every
  call; of \<open>process_document\<close>, one that returns from every call and one that raises
  when it is called with \<open>100.0\<close>.\<close>

definition raising_batch_callback :: "nat \<Rightarrow> int \<Rightarrow> error option" where
  "raising_batch_callback batch_num total_batches = Some (OtherError ''callback failed'')"

definition quiet_callback :: "string \<Rightarrow> real \<Rightarrow> error option" where
  "quiet_callback message progress = None"

definition raising_at_100 :: "string \<Rightarrow> real \<Rightarrow> error option" where
  "raising_at_100 message progress =
     (if progress = 100 then Some (OtherError ''callback failed'') else None)"

definition empty_stats :: PipelineStats where
  "empty_stats =
     \<lparr>documents_processed = 0, chunks_created = 0, embeddings_generated = 0,
      entities_extracted = 0, relationships_created = 0, total_processing_time = 0\<rparr>"

text \<open>Query-time results: a chunk result with a given score or content, a graph entity
  with a given score, and a rendering of dictionaries and lists.\<close>

definition result_with_score :: "real \<Rightarrow> ChunkResult" where
  "result_with_score s =
     \<lparr>cr_chunk_id = ''chunk-1'', cr_document_id = ''doc-1'', cr_content = ''text'',
      cr_score = s, cr_metadata = [], cr_document_title = None, cr_document_source = None,
      cr_chunk_index = Some 0\<rparr>"


definition entity_with_score :: "real option \<Rightarrow> GraphResult" where
  "entity_with_score s =
     \<lparr>gr_entity_id = ''e1'', gr_entity_name = ''Ada'', gr_entity_type = ''Person'',
      gr_relationships = PList [], gr_properties = PDict [], gr_score = s\<rparr>"

definition render :: "pyval \<Rightarrow> string" where
  "render v = (case v of PList xs \<Rightarrow> ''[]'' | _ \<Rightarrow> ''{}'')"


section \<open>Reference functions\<close>



text \<open>A splitter exception reaches the handler of \<open>chunk_document\<close>: on the semantic
  path when the first call and the fallback call both raise, on the basic path when
  its only call raises.\<close>

definition splitter_escapes :: "ChunkingConfig \<Rightarrow> Libraries \<Rightarrow> bool" where
  "splitter_escapes cfg sp =
     (if use_semantic_chunking cfg
      then split_raises sp 0 \<noteq> None \<and> split_raises sp 1 \<noteq> None
      else split_raises sp 0 \<noteq> None)"

text \<open>A failed \<open>ProcessingResult\<close> with the message \<open>m\<close>: no success, zero counts.\<close>

definition failed_with :: "ProcessingResult \<Rightarrow> string \<Rightarrow> bool" where
  "failed_with r m =
     (\<not> pr_success r \<and> pr_chunks_created r = 0 \<and> pr_entities_extracted r = 0
      \<and> pr_relationships_created r = 0 \<and> pr_error_message r = Some m)"

text \<open>The progress callback of \<open>process_document\<close> is absent or returns from every
  call.\<close>

definition callback_returns :: "progress_callback \<Rightarrow> bool" where
  "callback_returns cb = (case cb of None \<Rightarrow> True | Some f \<Rightarrow> \<forall>m v. f m v = None)"

text \<open>\<open>process_document\<close> returned a failed result with the message \<open>m\<close>.\<close>

definition returns_failed :: "error + ProcessingResult \<Rightarrow> string \<Rightarrow> bool" where
  "returns_failed outcome m = (case outcome of Inl e \<Rightarrow> False | Inr r \<Rightarrow> failed_with r m)"

text \<open>The chunks and the embedding outcome of a run whose extraction returned
  \<open>document0\<close>.\<close>

definition run_chunks ::
  "PipelineEnv \<Rightarrow> (string \<rightharpoonup> string) option \<Rightarrow> Document \<Rightarrow> DocumentChunk list" where
  "run_chunks env metadata document0 =
     chunk_document (chunking_config env) (libraries env) (prepare_document document0 metadata)"

definition run_embeddings ::
  "PipelineEnv \<Rightarrow> progress_callback \<Rightarrow> (string \<rightharpoonup> string) option \<Rightarrow> Document
     \<Rightarrow> error + (vec list \<times> (nat \<times> int) list)" where
  "run_embeddings env cb metadata document0 =
     generate_embeddings_batch (embedding_generator env) (embedding_client env)
       (Some (embedding_progress_callback cb))
       (map dc_content (run_chunks env metadata document0))"

text \<open>The scores of a list of results, read from the store.\<close>

definition scores_of :: "store \<Rightarrow> ref list \<Rightarrow> real list" where
  "scores_of h rs = map (\<lambda>r. cr_score (h ! r)) rs"

text \<open>Deduplication as the specification words it: keep, in order, the first element
  of each key and drop the later ones with the same key.\<close>

fun first_per_key :: "('a \<Rightarrow> 'k) \<Rightarrow> 'a list \<Rightarrow> 'a list" where
  "first_per_key key [] = []"
| "first_per_key key (x # xs) = x # first_per_key key (filter (\<lambda>y. key y \<noteq> key x) xs)"


section \<open>Properties of the chunk segmenter\<close>

lemma isspace_letter_a: "\<not> isspace (CHR ''a'')"
  by (simp add: isspace_def)

lemma strip_replicate_a: "strip (replicate n (CHR ''a'')) = replicate n (CHR ''a'')"
  by (simp add: strip_def isspace_letter_a)

lemma post_process_loop_index_bounds:
  "c \<in> set (post_process_loop cfg document i off chunks)
   \<Longrightarrow> i \<le> dc_chunk_index c \<and> dc_chunk_index c < i + length chunks"
  by (induction chunks arbitrary: i off) (fastforce simp: Let_def split: if_splits)+

text \<open>The indices of one run are strictly increasing, whatever is discarded.\<close>

lemma post_process_loop_increasing:
  "sorted_wrt (<) (map dc_chunk_index (post_process_loop cfg document i off chunks))"
proof (induction chunks arbitrary: i off)
  case Nil
  then show ?case by simp
next
  case (Cons c cs)
  have "\<And>off' x. x \<in> set (post_process_loop cfg document (Suc i) off' cs) \<Longrightarrow> i < dc_chunk_index x"
    using post_process_loop_index_bounds by fastforce
  with Cons show ?case by (auto simp: Let_def)
qed

text \<open>They are \<open>0..n-1\<close> when no candidate is discarded.\<close>

lemma post_process_loop_all_kept:
  "\<forall>c \<in> set chunks. \<not> int (length (strip c)) < min_chunk_size cfg \<Longrightarrow>
   map dc_chunk_index (post_process_loop cfg document i off chunks) = [i..<i + length chunks]"
  by (induction chunks arbitrary: i off) (auto simp: Let_def upt_rec)

text \<open>
  Claim C1: the chunk sequence of a document has \<open>chunk_index\<close> values \<open>0..n-1\<close>, with
  no gaps, even when short candidates are discarded. The code numbers a chunk with the
  enumeration index of its candidate: with the default configuration, the candidates
  \<open>Intro\<close> (discarded, shorter than 100) and a text of 120 letters give one chunk, and
  its index is 1, not 0.
\<close>

theorem post_process_chunks_index_gap:
  "map dc_chunk_index
     (post_process_chunks default_chunking_config example_document
        [''Intro'', replicate 120 (CHR ''a'')]) = [1]"
  by (simp add: post_process_chunks_def default_chunking_config_def strip_replicate_a Let_def)
     (simp add: strip_def isspace_def)

lemma semantic_loop_concat:
  "i + length rest = n \<Longrightarrow> rest \<noteq> [] \<or> cur = [] \<Longrightarrow>
   semantic_loop i n cur sem rest = sem @ cur @ rest"
proof (induction rest arbitrary: i cur sem)
  case Nil
  then show ?case by simp
next
  case (Cons c rest)
  show ?case
  proof (cases "length (cur @ [c]) \<ge> 5 \<or> i = n - 1")
    case True
    then show ?thesis
      using Cons.IH[of "Suc i" "[]" "sem @ optimize_chunk_boundaries (cur @ [c])"] Cons.prems
      by (simp add: Let_def optimize_chunk_boundaries_def)
  next
    case False
    with Cons.prems have "rest \<noteq> []" by auto
    with False show ?thesis
      using Cons.IH[of "Suc i" "cur @ [c]" sem] Cons.prems
      by (simp add: Let_def)
  qed
qed

lemma semantic_chunk_cases:
  "semantic_chunk sp text =
     (case split_raises sp 0 of
        None \<Rightarrow> Inr (split_text sp text)
      | Some e \<Rightarrow> (case split_raises sp 1 of None \<Rightarrow> Inr (split_text sp text) | Some e' \<Rightarrow> Inl e'))"
  by (simp add: semantic_chunk_def call_splitter_def semantic_loop_concat split: option.splits)

lemma chunk_document_try_cases:
  "chunk_document_try cfg sp document =
     (if strip (extracted_text document) = [] then Inr []
      else case (if use_semantic_chunking cfg
                 then (case split_raises sp 0 of None \<Rightarrow> None | Some e \<Rightarrow> split_raises sp 1)
                 else split_raises sp 0) of
             Some e \<Rightarrow> Inl e
           | None \<Rightarrow> Inr (post_process_chunks cfg document
                             (split_text sp (preprocess_text sp (extracted_text document)))))"
  by (simp add: chunk_document_try_def semantic_chunk_cases basic_chunk_def call_splitter_def
        Let_def split: option.splits)

text \<open>
  Claim C4, as stated: \<open>chunk_document\<close> never raises and, whenever an internal error
  occurs, returns the unmodified basic split of the text. It does not: with a splitter
  whose calls raise, the body raises and \<open>chunk_document\<close> returns the empty list,
  while the basic split of the text gives one chunk.
\<close>

theorem chunk_document_error_counterexample:
  "chunk_document_try default_chunking_config failing_splitter example_document
     = Inl (OtherError ''splitter failed'')
   \<and> chunk_document default_chunking_config failing_splitter example_document = []
   \<and> chunk_document default_chunking_config failing_splitter example_document \<noteq>
       post_process_chunks default_chunking_config example_document
         (split_text failing_splitter
            (preprocess_text failing_splitter (extracted_text example_document)))"
  by (simp add: chunk_document_def chunk_document_try_cases failing_splitter_def preprocess_text_def
        example_document_def extracted_text_def strip_replicate_a default_chunking_config_def
        post_process_chunks_def Let_def)

text \<open>
  Claim C4, amended: \<open>chunk_document\<close> never raises. It returns the empty list when
  the extracted text is blank or when a splitter exception reaches its handler (the
  only split call of the basic path raises, or the first call and the fallback call of
  the semantic path both raise). In every other case, also when the first split call
  of the semantic path raised and its fallback call returned, it returns the basic
  split of the preprocessed text, post-processed.
\<close>

theorem chunk_document_degrades:
  "chunk_document cfg sp document =
     (if strip (extracted_text document) = [] \<or> splitter_escapes cfg sp then []
      else post_process_chunks cfg document
             (split_text sp (preprocess_text sp (extracted_text document))))"
  by (auto simp: chunk_document_def chunk_document_try_cases splitter_escapes_def
        split: option.splits)

theorem chunk_document_degrades_witness:
  "map dc_chunk_index (chunk_document default_chunking_config flaky_splitter example_document) = [0]
   \<and> chunk_document default_chunking_config failing_splitter example_document = []"
  using chunk_document_degrades[of default_chunking_config flaky_splitter example_document]
        chunk_document_degrades[of default_chunking_config failing_splitter example_document]
  by (simp add: splitter_escapes_def failing_splitter_def preprocess_text_def flaky_splitter_def
        example_document_def extracted_text_def strip_replicate_a default_chunking_config_def
        post_process_chunks_def Let_def)

section \<open>Properties of the embedding batcher\<close>















lemma clean_examples:
  "clean_text ''a  b'' = ''a b''" "clean_text '' '' = []" "clean_text ''c'' = ''c''"
  by (simp_all add: clean_text_def py_split_def isspace_def)


lemma strip_examples: "strip ''a b'' = ''a b''" "strip ''c'' = ''c''" "strip [] = []"
  by (simp_all add: strip_def isspace_def)




text \<open>An exception of the progress callback is caught by the handler of its batch.
  The vectors of the batch are in the list by then, and the handler adds \<open>len(batch)\<close>
  zero vectors: the list is longer than the input.\<close>

lemma raising_batch_callback_example:
  "generate_embeddings_batch example_generator answering_client
     (Some raising_batch_callback) [''c''] = Inr ([[1, 1], [0, 0]], [(1, 1)])"
  by (simp add: generate_embeddings_batch_def example_generator_def Let_def
        batch_loop.simps[of _ _ _ _ _ _ 0] batch_loop.simps[of _ _ _ _ _ _ "Suc (Suc 0)"]
        process_batch_def clean_examples strip_examples answering_client_def
        example_vector_def raising_batch_callback_def zero_embedding_def numeral_2_eq_2)

section \<open>Properties of the pipeline orchestrator\<close>

subsection \<open>The calls to the embedding progress callback\<close>

lemma process_batch_calls:
  "snd (process_batch g client cb tb k batch) = [] \<or>
   snd (process_batch g client cb tb k batch) = [(k, tb)]"
  by (simp add: process_batch_def Let_def
        split: sum.splits prod.splits bool.splits option.splits)

lemma batch_step_arith:
  fixes b :: nat
  assumes "0 < b" "b dvd i" "i < n"
  shows "(i div b + 1) * b < n + b" and "(i + b) div b = i div b + 1"
proof -
  have "(i div b + 1) * b = i + b" using assms(1,2) by (simp add: algebra_simps)
  with assms(3) show "(i div b + 1) * b < n + b" by simp
  show "(i + b) div b = i div b + 1" using assms(1) by simp
qed

lemma batch_loop_unfold:
  "0 < b \<Longrightarrow> i < length texts \<Longrightarrow>
   snd (batch_loop g client cb tb b texts i) =
     snd (process_batch g client cb tb (i div b + 1) (take b (drop i texts)))
     @ snd (batch_loop g client cb tb b texts (i + b))"
  by (subst batch_loop.simps) (simp add: split_def)

lemma batch_loop_done:
  "\<not> (0 < b \<and> i < length texts) \<Longrightarrow> batch_loop g client cb tb b texts i = ([], [])"
  by (subst batch_loop.simps) auto

lemma batch_loop_calls_bounds:
  "0 < b \<Longrightarrow> b dvd i \<Longrightarrow> c \<in> set (snd (batch_loop g client cb tb b texts i)) \<Longrightarrow>
   i div b + 1 \<le> fst c \<and> fst c * b < length texts + b \<and> snd c = tb"
proof (induction g client cb tb b texts i rule: batch_loop.induct)
  case (1 g client cb tb b texts i)
  show ?case
  proof (cases "0 < b \<and> i < length texts")
    case False
    with "1.prems"(3) show ?thesis by (simp add: batch_loop_done)
  next
    case True
    then have il: "i < length texts" and bp: "0 < b" by simp_all
    from "1.prems"(3) batch_loop_unfold[OF bp il, of g client cb tb]
    consider (here) "c \<in> set (snd (process_batch g client cb tb (i div b + 1) (take b (drop i texts))))"
      | (later) "c \<in> set (snd (batch_loop g client cb tb b texts (i + b)))"
      by auto
    then show ?thesis
    proof cases
      case here
      with process_batch_calls[of g client cb tb "i div b + 1" "take b (drop i texts)"]
      have "c = (i div b + 1, tb)" by auto
      with batch_step_arith(1)[OF bp "1.prems"(2) il] show ?thesis by simp
    next
      case later
      have "b dvd i + b" using "1.prems"(2) by simp
      from "1.IH"[OF True prod.collapse bp this later]
      have "(i + b) div b + 1 \<le> fst c" "fst c * b < length texts + b" "snd c = tb" by simp_all
      with batch_step_arith(2)[OF bp "1.prems"(2) il] show ?thesis by simp
    qed
  qed
qed

lemma batch_loop_calls_sorted:
  "0 < b \<Longrightarrow> b dvd i \<Longrightarrow> sorted_wrt (<) (map fst (snd (batch_loop g client cb tb b texts i)))"
proof (induction g client cb tb b texts i rule: batch_loop.induct)
  case (1 g client cb tb b texts i)
  show ?case
  proof (cases "0 < b \<and> i < length texts")
    case False
    then show ?thesis by (simp add: batch_loop_done)
  next
    case True
    then have il: "i < length texts" and bp: "0 < b" by simp_all
    have dvd': "b dvd i + b" using "1.prems"(2) by simp
    have ih: "sorted_wrt (<) (map fst (snd (batch_loop g client cb tb b texts (i + b))))"
      by (rule "1.IH"[OF True prod.collapse bp dvd'])
    have later: "i div b + 1 < fst c" if "c \<in> set (snd (batch_loop g client cb tb b texts (i + b)))" for c
    proof -
      from batch_loop_calls_bounds[OF bp dvd' that] have "(i + b) div b + 1 \<le> fst c" by simp
      with batch_step_arith(2)[OF bp "1.prems"(2) il] show ?thesis by simp
    qed
    from process_batch_calls[of g client cb tb "i div b + 1" "take b (drop i texts)"]
    show ?thesis
    proof
      assume "snd (process_batch g client cb tb (i div b + 1) (take b (drop i texts))) = []"
      with ih show ?thesis by (simp add: batch_loop_unfold[OF bp il])
    next
      assume "snd (process_batch g client cb tb (i div b + 1) (take b (drop i texts))) = [(i div b + 1, tb)]"
      with ih later show ?thesis by (simp add: batch_loop_unfold[OF bp il])
    qed
  qed
qed


lemma total_batches_nat:
  assumes "0 < b"
  shows "(int n + int b - 1) div int b = int ((n + b - 1) div b)"
proof -
  have "1 \<le> n + b" using assms by simp
  then have "int (n + b - 1) = int n + int b - 1" by simp
  then have "(int n + int b - 1) div int b = int (n + b - 1) div int b" by simp
  also have "\<dots> = int ((n + b - 1) div b)" by (rule zdiv_int[symmetric])
  finally show ?thesis .
qed

lemma embedding_progress_range:
  assumes "0 < b" "1 \<le> k" "k * b < n + b"
  shows "45 \<le> embedding_progress (k, (int n + int b - 1) div int b)
       \<and> embedding_progress (k, (int n + int b - 1) div int b) \<le> 60"
proof -
  let ?t = "(n + b - 1) div b"
  define x where "x = real k / real ?t"
  have "k * b \<le> n + b - 1" using assms by simp
  then have kt: "k \<le> ?t" using assms(1) by (simp add: less_eq_div_iff_mult_less_eq)
  with assms have t: "0 < ?t" by linarith
  have x: "0 \<le> x" "x \<le> 1" using kt t by (simp_all add: x_def)
  have e: "embedding_progress (k, (int n + int b - 1) div int b) = 45 + x * 15"
    by (simp add: embedding_progress_def total_batches_nat[OF assms(1)] x_def)
  show ?thesis unfolding e using x by linarith
qed

lemma embedding_progress_mono:
  assumes "k \<le> k'" "0 \<le> tb"
  shows "embedding_progress (k, tb) \<le> embedding_progress (k', tb)"
proof -
  have d: "real k / real_of_int tb \<le> real k' / real_of_int tb"
    using assms by (simp add: divide_right_mono)
  have "real k / real_of_int tb * 15 \<le> real k' / real_of_int tb * 15"
    using d by (rule mult_right_mono) simp
  then show ?thesis
    unfolding embedding_progress_def fst_conv snd_conv by (rule add_left_mono)
qed


subsection \<open>Progress of a run\<close>

lemma generate_embeddings_batch_progress:
  assumes "generate_embeddings_batch g client cb texts = Inr (embeddings, calls)"
  shows "sorted (map embedding_progress calls)
       \<and> (\<forall>c \<in> set calls. 45 \<le> embedding_progress c \<and> embedding_progress c \<le> 60)"
proof (cases "0 < batch_size g")
  case False
  with assms have "calls = []"
    by (auto simp: generate_embeddings_batch_def Let_def split: if_splits)
  then show ?thesis by simp
next
  case True
  define b where "b = nat (batch_size g)"
  define tb where "tb = (int (length texts) + int b - 1) div int b"
  have bp: "0 < b" and bi: "batch_size g = int b" using True by (simp_all add: b_def)
  have calls: "calls = snd (batch_loop g client cb tb b texts 0)"
    using assms True by (auto simp: generate_embeddings_batch_def Let_def bi tb_def)
  have tb0: "0 \<le> tb" by (simp add: tb_def total_batches_nat[OF bp])
  have bounds: "1 \<le> fst c \<and> fst c * b < length texts + b \<and> snd c = tb" if "c \<in> set calls" for c
    using batch_loop_calls_bounds[OF bp, of 0 c g client cb tb texts] that calls by simp
  have range: "45 \<le> embedding_progress c \<and> embedding_progress c \<le> 60" if "c \<in> set calls" for c
  proof -
    from bounds[OF that] have "1 \<le> fst c" "fst c * b < length texts + b" "c = (fst c, tb)"
      by (simp_all add: prod_eq_iff)
    with embedding_progress_range[OF bp, of "fst c" "length texts"]
    show ?thesis by (simp add: tb_def)
  qed
  have srt: "sorted_wrt (<) (map fst calls)"
    using batch_loop_calls_sorted[OF bp, of 0 g client cb tb texts] calls by simp
  have "sorted_wrt (\<lambda>c c'. embedding_progress c \<le> embedding_progress c') calls"
  proof (rule sorted_wrt_mono_rel[of calls "\<lambda>c c'. fst c < fst c'"])
    fix c c' assume "c \<in> set calls" "c' \<in> set calls" "fst c < fst c'"
    with bounds[of c] bounds[of c'] have "c = (fst c, tb)" "c' = (fst c', tb)" "fst c \<le> fst c'"
      by (simp_all add: prod_eq_iff)
    with embedding_progress_mono[OF _ tb0, of "fst c" "fst c'"]
    show "embedding_progress c \<le> embedding_progress c'" by simp
  next
    show "sorted_wrt (\<lambda>c c'. fst c < fst c') calls" using srt by (simp add: sorted_wrt_map)
  qed
  then have "sorted (map embedding_progress calls)" by (simp add: sorted_wrt_map)
  with range show ?thesis by blast
qed

text \<open>A result that leaves the \<open>try\<close> body is the successful one, with or without
  a progress callback.\<close>

lemma finalize_result:
  "finalize env cb document chunks d stats = (Inr r, doc, d', st) \<Longrightarrow> pr_success r"
  by (auto simp: finalize_def Let_def split: option.splits prod.splits)

lemma build_knowledge_graph_result:
  "build_knowledge_graph env cb document chunks d stats = (Inr r, doc, d', st)
   \<Longrightarrow> pr_success r"
  by (auto simp: build_knowledge_graph_def
           split: option.splits sum.splits prod.splits dest: finalize_result)

lemma store_vectors_result:
  "store_vectors env cb document chunks d stats = (Inr r, doc, d', st) \<Longrightarrow> pr_success r"
  by (auto simp: store_vectors_def
           split: option.splits sum.splits prod.splits dest: build_knowledge_graph_result)

lemma generate_embeddings_result:
  "generate_embeddings env cb document chunks d stats = (Inr r, doc, d', st)
   \<Longrightarrow> pr_success r"
  by (auto simp: generate_embeddings_def
           split: option.splits sum.splits prod.splits dest: store_vectors_result)

lemma chunk_step_result:
  "chunk_step env cb document d stats = (Inr r, doc, d', st) \<Longrightarrow> pr_success r"
  by (auto simp: chunk_step_def Let_def
           split: option.splits if_splits prod.splits dest: generate_embeddings_result)

lemma process_document_try_result:
  "process_document_try env cb metadata stats = (Inr r, doc, d', st) \<Longrightarrow> pr_success r"
  by (auto simp: process_document_try_def Let_def
           split: option.splits sum.splits prod.splits dest: chunk_step_result)

text \<open>The steps of the \<open>try\<close> body, last first: when a step ends in a result, the
  result is the successful one and the callback received the checkpoints of the step
  and of the steps after it.\<close>

lemma finalize_success:
  "finalize env (Some f) document chunks d stats = (Inr r, doc, d', st)
   \<Longrightarrow> pr_success r \<and> map snd d' = map snd d @ [95, 100]"
  by (auto simp: finalize_def report_def Let_def split: option.splits)

lemma build_knowledge_graph_success:
  "build_knowledge_graph env (Some f) document chunks d stats = (Inr r, doc, d', st)
   \<Longrightarrow> pr_success r \<and> map snd d' = map snd d @ [75, 90, 95, 100]"
  by (auto simp: build_knowledge_graph_def report_def
           split: option.splits sum.splits dest!: finalize_success)

lemma store_vectors_success:
  "store_vectors env (Some f) document chunks d stats = (Inr r, doc, d', st)
   \<Longrightarrow> pr_success r \<and> map snd d' = map snd d @ [65, 70, 75, 90, 95, 100]"
  by (auto simp: store_vectors_def report_def
           split: option.splits sum.splits dest!: build_knowledge_graph_success)

lemma generate_embeddings_success:
  "generate_embeddings env (Some f) document chunks d stats = (Inr r, doc, d', st)
   \<Longrightarrow> pr_success r
     \<and> (\<exists>embeddings calls.
          generate_embeddings_batch (embedding_generator env) (embedding_client env)
            (Some (embedding_progress_callback (Some f))) (map dc_content chunks)
              = Inr (embeddings, calls)
          \<and> map snd d' = map snd d @ [45] @ map embedding_progress calls
                            @ [60, 65, 70, 75, 90, 95, 100])"
  by (auto simp: generate_embeddings_def report_def embedding_calls_def o_def
           split: option.splits sum.splits prod.splits dest!: store_vectors_success)

lemma chunk_step_success:
  "chunk_step env (Some f) document d stats = (Inr r, doc, d', st)
   \<Longrightarrow> pr_success r
     \<and> (\<exists>texts embeddings calls.
          generate_embeddings_batch (embedding_generator env) (embedding_client env)
            (Some (embedding_progress_callback (Some f))) texts = Inr (embeddings, calls)
          \<and> map snd d' = map snd d @ [25, 40, 45] @ map embedding_progress calls
                            @ [60, 65, 70, 75, 90, 95, 100])"
proof -
  assume a: "chunk_step env (Some f) document d stats = (Inr r, doc, d', st)"
  define chunks where
    "chunks = chunk_document (chunking_config env) (libraries env) document"
  define d0 where
    "d0 = d @ [(''Creating semantic chunks...'', 25),
               (''Created '' @ str_nat (length chunks) @ '' chunks'', 40)]"
  from a have
    g: "generate_embeddings env (Some f) document chunks d0 stats = (Inr r, doc, d', st)"
    by (auto simp: chunk_step_def report_def Let_def chunks_def d0_def
             split: option.splits if_splits)
  have d0: "map snd d0 = map snd d @ [25, 40]" by (simp add: d0_def)
  from generate_embeddings_success[OF g] obtain embeddings calls where
    r: "pr_success r"
    and b: "generate_embeddings_batch (embedding_generator env) (embedding_client env)
              (Some (embedding_progress_callback (Some f))) (map dc_content chunks)
                = Inr (embeddings, calls)"
    and m: "map snd d' = map snd d0 @ [45] @ map embedding_progress calls
                           @ [60, 65, 70, 75, 90, 95, 100]" by blast
  from m d0 have "map snd d' = map snd d @ [25, 40, 45] @ map embedding_progress calls
                                 @ [60, 65, 70, 75, 90, 95, 100]" by simp
  with r b show ?thesis by blast
qed

lemma process_document_try_success:
  "process_document_try env (Some f) metadata stats = (Inr r, doc, d', st)
   \<Longrightarrow> pr_success r
     \<and> (\<exists>texts embeddings calls.
          generate_embeddings_batch (embedding_generator env) (embedding_client env)
            (Some (embedding_progress_callback (Some f))) texts = Inr (embeddings, calls)
          \<and> map snd d' = [0, 10, 20, 25, 40, 45] @ map embedding_progress calls
                            @ [60, 65, 70, 75, 90, 95, 100])"
proof -
  assume a: "process_document_try env (Some f) metadata stats = (Inr r, doc, d', st)"
  define d0 :: "progress_call list" where
    "d0 = [(''Starting processing...'', 0), (''Extracting text from PDF...'', 10),
           (''Text extraction completed'', 20)]"
  from a have "\<exists>document. chunk_step env (Some f) document d0 stats
                             = (Inr r, doc, d', st)"
    by (auto simp: process_document_try_def report_def Let_def d0_def
             split: option.splits sum.splits)
  then obtain document where
    c: "chunk_step env (Some f) document d0 stats = (Inr r, doc, d', st)" by blast
  have d0: "map snd d0 = [0, 10, 20]" by (simp add: d0_def)
  from chunk_step_success[OF c] obtain texts embeddings calls where
    r: "pr_success r"
    and b: "generate_embeddings_batch (embedding_generator env) (embedding_client env)
              (Some (embedding_progress_callback (Some f))) texts = Inr (embeddings, calls)"
    and m: "map snd d' = map snd d0 @ [25, 40, 45] @ map embedding_progress calls
                           @ [60, 65, 70, 75, 90, 95, 100]" by blast
  from m d0 have "map snd d' = [0, 10, 20, 25, 40, 45] @ map embedding_progress calls
                                 @ [60, 65, 70, 75, 90, 95, 100]" by simp
  with r b show ?thesis by blast
qed

text \<open>The result the handler returns is a failed one.\<close>

lemma processing_failed_result:
  "processing_failed env cb document error d stats = (Inr r, d', st)
   \<Longrightarrow> failed_with r (str_error error)"
  by (auto simp: processing_failed_def report_def failed_with_def Let_def
           split: option.splits)

lemma process_document_success:
  assumes "fst (process_document env (Some f) metadata stats) = Inr r" and "pr_success r"
  shows "\<exists>texts embeddings calls.
           generate_embeddings_batch (embedding_generator env) (embedding_client env)
             (Some (embedding_progress_callback (Some f))) texts = Inr (embeddings, calls)
           \<and> map snd (fst (snd (process_document env (Some f) metadata stats))) =
               [0, 10, 20, 25, 40, 45] @ map embedding_progress calls
                 @ [60, 65, 70, 75, 90, 95, 100]"
proof -
  obtain outcome doc d st where
    t: "process_document_try env (Some f) metadata stats = (outcome, doc, d, st)"
    by (cases "process_document_try env (Some f) metadata stats") auto
  show ?thesis
  proof (cases outcome)
    case (Inl error)
    obtain x d' st' where
      h: "processing_failed env (Some f) doc error d st = (x, d', st')"
      by (cases "processing_failed env (Some f) doc error d st") auto
    with assms(1) t Inl have "x = Inr r" by (simp add: process_document_def)
    with h processing_failed_result have "failed_with r (str_error error)" by blast
    with assms(2) show ?thesis by (simp add: failed_with_def)
  next
    case (Inr result)
    with t have p: "process_document env (Some f) metadata stats = (Inr result, d, st)"
      by (simp add: process_document_def)
    from process_document_try_success[OF t[unfolded Inr]] show ?thesis
      unfolding p by simp
  qed
qed

text \<open>
  Claim C7: in a successful \<open>process_document\<close> run with a progress callback, the
  progress values delivered to the callback are non-decreasing, lie in \<open>[0, 100]\<close>
  (the interpolated values of the embedding stage included), and the last one is 100.
\<close>

theorem progress_monotone:
  assumes "fst (process_document env (Some f) metadata stats) = Inr r" and "pr_success r"
  shows "sorted (map snd (fst (snd (process_document env (Some f) metadata stats))))
       \<and> (\<forall>p \<in> set (map snd (fst (snd (process_document env (Some f) metadata stats)))).
            0 \<le> p \<and> p \<le> 100)
       \<and> fst (snd (process_document env (Some f) metadata stats)) \<noteq> []
       \<and> last (map snd (fst (snd (process_document env (Some f) metadata stats)))) = 100"
proof -
  from process_document_success[OF assms] obtain texts embeddings calls where
    g: "generate_embeddings_batch (embedding_generator env) (embedding_client env)
          (Some (embedding_progress_callback (Some f))) texts = Inr (embeddings, calls)"
    and p: "map snd (fst (snd (process_document env (Some f) metadata stats))) =
              [0, 10, 20, 25, 40, 45] @ map embedding_progress calls
                @ [60, 65, 70, 75, 90, 95, 100]"
    by blast
  from generate_embeddings_batch_progress[OF g] have
    s: "sorted (map embedding_progress calls)"
    and r: "\<forall>c \<in> set calls. 45 \<le> embedding_progress c \<and> embedding_progress c \<le> 60"
    by simp_all
  have "sorted ([0, 10, 20, 25, 40, 45] @ map embedding_progress calls
                @ [60, 65, 70, 75, 90, 95, 100::real])"
    using s r by (auto simp: sorted_append)
  moreover have "\<forall>p \<in> set ([0, 10, 20, 25, 40, 45] @ map embedding_progress calls
                @ [60, 65, 70, 75, 90, 95, 100::real]). 0 \<le> p \<and> p \<le> 100"
    using r by auto
  moreover have "fst (snd (process_document env (Some f) metadata stats)) \<noteq> []"
    using p by (cases "fst (snd (process_document env (Some f) metadata stats))") simp_all
  ultimately show ?thesis unfolding p by simp
qed

lemma example_chunks:
  "chunk_document default_chunking_config three_piece_splitter
     (prepare_document example_document None) \<noteq> []"
  by (simp add: chunk_document_def chunk_document_try_cases three_piece_splitter_def
        preprocess_text_def prepare_document_def example_document_def extracted_text_def
        strip_replicate_a default_chunking_config_def post_process_chunks_def Let_def)

lemma example_env_success:
  "\<exists>r. fst (process_document example_env (Some quiet_callback) None empty_stats) = Inr r
       \<and> pr_success r"
  using example_chunks
  by (simp add: process_document_def process_document_try_def chunk_step_def
        generate_embeddings_def store_vectors_def build_knowledge_graph_def finalize_def
        example_env_def Let_def generate_embeddings_batch_def example_generator_def
        split_def report_def quiet_callback_def)

theorem progress_monotone_witness:
  "\<exists>r. fst (process_document example_env (Some quiet_callback) None empty_stats) = Inr r
       \<and> pr_success r
       \<and> sorted (map snd (fst (snd
            (process_document example_env (Some quiet_callback) None empty_stats))))
       \<and> last (map snd (fst (snd
            (process_document example_env (Some quiet_callback) None empty_stats)))) = 100"
proof -
  from example_env_success obtain r where
    r: "fst (process_document example_env (Some quiet_callback) None empty_stats) = Inr r"
       "pr_success r" by blast
  from progress_monotone[OF r] r show ?thesis by blast
qed

subsection \<open>Failures of a run\<close>

text \<open>A progress callback that returns from every call lets every report pass.\<close>

lemma report_returns:
  "callback_returns cb \<Longrightarrow> fst (report cb call d) = None"
  by (auto simp: callback_returns_def report_def split: option.splits)

text \<open>An exception leaves \<open>process_document\<close> only from the call the handler makes to
  the progress callback: it is an exception that callback raises when called with
  \<open>100.0\<close>.\<close>

lemma process_document_raises_from_handler:
  assumes "fst (process_document env cb metadata stats) = Inl e"
  shows "\<exists>f m. cb = Some f \<and> f m 100 = Some e"
proof -
  obtain outcome doc d st where
    t: "process_document_try env cb metadata stats = (outcome, doc, d, st)"
    by (cases "process_document_try env cb metadata stats") auto
  show ?thesis
  proof (cases outcome)
    case (Inl error)
    with assms t have "fst (processing_failed env cb doc error d st) = Inl e"
      by (simp add: process_document_def)
    then show ?thesis
      by (auto simp: processing_failed_def report_def Let_def split: option.splits)
  next
    case (Inr result)
    with assms t show ?thesis by (simp add: process_document_def)
  qed
qed

text \<open>With a progress callback that is absent or returns from every call, every run
  returns a result, and the result of a run that reached the handler is the failed one
  that carries \<open>str(error)\<close>: no chunk gives the message
  \<open>No chunks created from document\<close>, and an exception of the extraction, the embedding,
  the vector-store write or the graph-store write gives its own message.\<close>

lemma process_document_returns:
  assumes "callback_returns cb"
  shows "\<exists>r. fst (process_document env cb metadata stats) = Inr r
             \<and> (pr_success r \<or> (\<exists>m. failed_with r m))"
proof (cases "fst (process_document env cb metadata stats)")
  case (Inl e)
  from process_document_raises_from_handler[OF Inl] assms show ?thesis
    by (auto simp: callback_returns_def)
next
  case (Inr r)
  obtain outcome doc d st where
    t: "process_document_try env cb metadata stats = (outcome, doc, d, st)"
    by (cases "process_document_try env cb metadata stats") auto
  show ?thesis
  proof (cases outcome)
    case (Inl error)
    obtain x d' st' where
      h: "processing_failed env cb doc error d st = (x, d', st')"
      by (cases "processing_failed env cb doc error d st") auto
    with Inr t Inl have "x = Inr r" by (simp add: process_document_def)
    with h processing_failed_result have "failed_with r (str_error error)" by blast
    with Inr show ?thesis by blast
  next
    case (Inr result)
    with t have "process_document env cb metadata stats = (Inr result, d, st)"
      by (simp add: process_document_def)
    moreover from t Inr have "pr_success result"
      by (auto dest: process_document_try_result)
    ultimately show ?thesis by simp
  qed
qed

lemma report_passes:
  "callback_returns cb
   \<Longrightarrow> report cb call d = (None, case cb of None \<Rightarrow> d | Some f \<Rightarrow> d @ [call])"
  by (auto simp: callback_returns_def report_def split: option.splits)

lemma processing_failed_captures:
  "callback_returns cb
   \<Longrightarrow> returns_failed (fst (processing_failed env cb document error d stats))
         (str_error error)"
  by (simp add: processing_failed_def report_passes returns_failed_def failed_with_def
        Let_def)

lemma process_document_handles:
  "process_document_try env cb metadata stats = (Inl error, doc, d, st)
   \<Longrightarrow> callback_returns cb
   \<Longrightarrow> returns_failed (fst (process_document env cb metadata stats)) (str_error error)"
  by (simp add: process_document_def processing_failed_captures)

lemma process_document_no_chunks:
  assumes "callback_returns cb" and "process_pdf env = Inr document0"
    and "run_chunks env metadata document0 = []"
  shows "returns_failed (fst (process_document env cb metadata stats))
           ''No chunks created from document''"
proof -
  have "\<exists>doc d st. process_document_try env cb metadata stats =
          (Inl (IngestionPipelineError ''No chunks created from document''), doc, d, st)"
    using assms
    by (simp add: process_document_try_def chunk_step_def report_passes run_chunks_def
          Let_def)
  with process_document_handles[OF _ assms(1)] show ?thesis by fastforce
qed

lemma process_document_extraction_error:
  assumes "callback_returns cb" and "process_pdf env = Inl e"
  shows "returns_failed (fst (process_document env cb metadata stats)) (str_error e)"
proof -
  have "\<exists>doc d st. process_document_try env cb metadata stats = (Inl e, doc, d, st)"
    using assms by (simp add: process_document_try_def report_passes)
  with process_document_handles[OF _ assms(1)] show ?thesis by fastforce
qed

lemma process_document_embedding_error:
  assumes "callback_returns cb" and "process_pdf env = Inr document0"
    and "run_chunks env metadata document0 \<noteq> []"
    and "run_embeddings env cb metadata document0 = Inl e"
  shows "returns_failed (fst (process_document env cb metadata stats)) (str_error e)"
proof -
  have "\<exists>doc d st. process_document_try env cb metadata stats = (Inl e, doc, d, st)"
    using assms
    by (simp add: process_document_try_def chunk_step_def generate_embeddings_def
          report_passes run_chunks_def run_embeddings_def Let_def)
  with process_document_handles[OF _ assms(1)] show ?thesis by fastforce
qed

lemma process_document_vector_store_error:
  assumes "callback_returns cb" and "process_pdf env = Inr document0"
    and "run_chunks env metadata document0 \<noteq> []"
    and "run_embeddings env cb metadata document0 = Inr (embeddings, calls)"
    and "add_documents env (assign_embeddings (run_chunks env metadata document0) embeddings)
           = Inl e"
  shows "returns_failed (fst (process_document env cb metadata stats)) (str_error e)"
proof -
  have "\<exists>doc d st. process_document_try env cb metadata stats = (Inl e, doc, d, st)"
    using assms
    by (simp add: process_document_try_def chunk_step_def generate_embeddings_def
          store_vectors_def report_passes run_chunks_def run_embeddings_def Let_def)
  with process_document_handles[OF _ assms(1)] show ?thesis by fastforce
qed

lemma process_document_graph_store_error:
  assumes "callback_returns cb" and "process_pdf env = Inr document0"
    and "run_chunks env metadata document0 \<noteq> []"
    and "run_embeddings env cb metadata document0 = Inr (embeddings, calls)"
    and "add_documents env (assign_embeddings (run_chunks env metadata document0) embeddings)
           = Inr vector_success"
    and "add_episode env (extracted_text (prepare_document document0 metadata))
           (doc_original_name (prepare_document document0 metadata))
           (doc_document_id (prepare_document document0 metadata)) = Inl e"
  shows "returns_failed (fst (process_document env cb metadata stats)) (str_error e)"
proof -
  have "\<exists>doc d st. process_document_try env cb metadata stats = (Inl e, doc, d, st)"
    using assms
    by (simp add: process_document_try_def chunk_step_def generate_embeddings_def
          store_vectors_def build_knowledge_graph_def report_passes run_chunks_def
          run_embeddings_def Let_def)
  with process_document_handles[OF _ assms(1)] show ?thesis by fastforce
qed

lemma blank_env_no_chunks:
  "process_pdf blank_env = Inr blank_document
   \<and> run_chunks blank_env None blank_document = []"
  by (simp add: blank_env_def example_env_def blank_document_def chunk_document_def
        chunk_document_try_cases prepare_document_def extracted_text_def strip_def
        run_chunks_def)

lemma blank_env_quiet:
  "returns_failed (fst (process_document blank_env (Some quiet_callback) None empty_stats))
     ''No chunks created from document''"
  using blank_env_no_chunks
  by (intro process_document_no_chunks[of _ _ blank_document])
     (simp_all add: callback_returns_def quiet_callback_def)

text \<open>
  Claim C5: a \<open>process_document\<close> run whose segmentation yields no chunk returns (does
  not raise) a \<open>ProcessingResult\<close> with \<open>success = False\<close>, \<open>chunks_created = 0\<close> and a
  non-empty error message. The handler of \<open>process_document\<close> builds that result and
  then calls the progress callback with \<open>100.0\<close>, outside any \<open>try\<close>: for a document
  with a blank text and a progress callback that raises when it is called with
  \<open>100.0\<close>, the exception of the callback leaves \<open>process_document\<close> and no result is
  returned.
\<close>

theorem process_document_callback_escapes:
  "fst (process_document blank_env (Some raising_at_100) None empty_stats)
     = Inl (OtherError ''callback failed'')"
proof -
  have "process_document_try blank_env (Some raising_at_100) None empty_stats =
          (Inl (IngestionPipelineError ''No chunks created from document''),
           Some (prepare_document blank_document None),
           [(''Starting processing...'', 0), (''Extracting text from PDF...'', 10),
            (''Text extraction completed'', 20), (''Creating semantic chunks...'', 25)],
           empty_stats)"
    using blank_env_no_chunks
    by (simp add: process_document_try_def chunk_step_def report_def raising_at_100_def
          run_chunks_def Let_def)
  then show ?thesis
    by (simp add: process_document_def processing_failed_def report_def
          raising_at_100_def Let_def)
qed
section \<open>Properties of the hybrid fusion engine\<close>

subsection \<open>The store\<close>

lemma set_score_length [simp]: "length (set_score r v h) = length h"
  by (simp add: set_score_def)

lemma set_score_other: "r' \<noteq> r \<Longrightarrow> set_score r v h ! r' = h ! r'"
  by (simp add: set_score_def)

lemma set_score_same: "r < length h \<Longrightarrow> set_score r v h ! r = (h ! r)\<lparr>cr_score := v\<rparr>"
  by (simp add: set_score_def)

lemma weight_vector_results_length [simp]:
  "length (weight_vector_results vw rs h) = length h"
  by (induction rs arbitrary: h) simp_all

lemma weight_vector_results_other:
  "r \<notin> set rs \<Longrightarrow> weight_vector_results vw rs h ! r = h ! r"
  by (induction rs arbitrary: h) (auto simp: set_score_other)

lemma weight_vector_results_scaled:
  "distinct rs \<Longrightarrow> r \<in> set rs \<Longrightarrow> r < length h \<Longrightarrow>
   weight_vector_results vw rs h ! r = (h ! r)\<lparr>cr_score := cr_score (h ! r) * vw\<rparr>"
proof (induction rs arbitrary: h)
  case Nil
  then show ?case by simp
next
  case (Cons x xs)
  show ?case
  proof (cases "r = x")
    case True
    with Cons.prems have "r \<notin> set xs" by simp
    then show ?thesis using True Cons.prems
      by (simp add: weight_vector_results_other set_score_same)
  next
    case False
    with Cons.prems have "r \<in> set xs" "distinct xs" by simp_all
    with Cons.IH[of "set_score x (cr_score (h ! x) * vw) h"] Cons.prems False
    show ?thesis by (simp add: set_score_other)
  qed
qed

lemma project_graph_results_store:
  "project_graph_results py_str gw grs h =
     ([length h..<length h + length grs], h @ map (graph_chunk_result py_str gw) grs)"
proof (induction grs arbitrary: h)
  case Nil
  then show ?case by simp
next
  case (Cons g gs)
  have "[length h..<length h + length (g # gs)] = length h # [Suc (length h)..<Suc (length h) + length gs]"
    by (simp add: upt_rec)
  then show ?case using Cons.IH[of "h @ [graph_chunk_result py_str gw g]"]
    by (simp add: new_object_def)
qed

lemma combine_search_results_store:
  "snd (combine_search_results py_str vrs grs vw gw h) =
     weight_vector_results vw vrs h @ map (graph_chunk_result py_str gw) grs"
  by (simp add: combine_search_results_def project_graph_results_store Let_def)

lemma combine_search_results_refs:
  "set (fst (combine_search_results py_str vrs grs vw gw h)) =
     set vrs \<union> {length h..<length h + length grs}"
  by (simp add: combine_search_results_def project_graph_results_store Let_def
        sort_by_score_desc_def)

lemma combine_search_results_sorted:
  "sorted_wrt (\<ge>)
     (map (\<lambda>r. cr_score (snd (combine_search_results py_str vrs grs vw gw h) ! r))
        (fst (combine_search_results py_str vrs grs vw gw h)))"
proof -
  let ?h2 = "weight_vector_results vw vrs h @ map (graph_chunk_result py_str gw) grs"
  let ?rs = "vrs @ [length h..<length h + length grs]"
  have "sorted (map (\<lambda>r. - cr_score (?h2 ! r)) (sort_key (\<lambda>r. - cr_score (?h2 ! r)) ?rs))"
    by (rule sorted_sort_key)
  then have "sorted_wrt (\<lambda>a b. - cr_score (?h2 ! a) \<le> - cr_score (?h2 ! b))
               (sort_key (\<lambda>r. - cr_score (?h2 ! r)) ?rs)"
    by (simp add: sorted_wrt_map)
  then show ?thesis
    by (simp add: combine_search_results_def project_graph_results_store Let_def
          sort_by_score_desc_def sorted_wrt_map)
qed

text \<open>
  Claim C10: \<open>_combine_search_results\<close> mutates its vector results in place. For a
  list of distinct result objects, each object's \<open>score\<close> is overwritten with the
  weighted value and nothing else of it changes, the returned list holds these same
  objects, and fusing the same objects a second time multiplies their scores by
  \<open>vector_weight\<close> again.
\<close>

theorem combine_search_results_mutates:
  assumes "distinct vector_results" and "\<forall>r \<in> set vector_results. r < length h"
  shows "(\<forall>r \<in> set vector_results.
            snd (combine_search_results py_str vector_results graph_results vw gw h) ! r
              = (h ! r)\<lparr>cr_score := cr_score (h ! r) * vw\<rparr>)
       \<and> set vector_results
            \<subseteq> set (fst (combine_search_results py_str vector_results graph_results vw gw h))
       \<and> (\<forall>r \<in> set vector_results.
            cr_score (snd (combine_search_results py_str vector_results graph_results' vw gw
                        (snd (combine_search_results py_str vector_results graph_results vw gw h))) ! r)
              = cr_score (h ! r) * vw * vw)"
proof -
  let ?h1 = "snd (combine_search_results py_str vector_results graph_results vw gw h)"
  have first: "?h1 ! r = (h ! r)\<lparr>cr_score := cr_score (h ! r) * vw\<rparr>"
    if "r \<in> set vector_results" for r
    using that assms
    by (simp add: combine_search_results_store nth_append weight_vector_results_scaled)
  have len: "length h \<le> length ?h1" by (simp add: combine_search_results_store)
  have second: "snd (combine_search_results py_str vector_results graph_results' vw gw ?h1) ! r
                  = (?h1 ! r)\<lparr>cr_score := cr_score (?h1 ! r) * vw\<rparr>"
    if "r \<in> set vector_results" for r
  proof -
    from that assms(2) len have "r < length ?h1" by auto
    with that assms(1) show ?thesis
      by (simp add: combine_search_results_store[of py_str vector_results graph_results' vw gw ?h1]
            nth_append weight_vector_results_scaled)
  qed
  show ?thesis using first second by (simp add: combine_search_results_refs)
qed

theorem combine_search_results_mutates_witness:
  "cr_score (snd (combine_search_results render [0] [] 0.7 0.3 [result_with_score 1]) ! 0) = 0.7
   \<and> cr_content (snd (combine_search_results render [0] [] 0.7 0.3 [result_with_score 1]) ! 0)
       = ''text''
   \<and> cr_score (snd (combine_search_results render [0] [] 0.7 0.3
                  (snd (combine_search_results render [0] [] 0.7 0.3 [result_with_score 1]))) ! 0)
       = 0.49"
proof -
  have d: "distinct [0::nat]" by simp
  have v: "\<forall>r \<in> set [0::nat]. r < length [result_with_score 1]" by simp
  from combine_search_results_mutates[OF d v, of render "[]" "0.7" "0.3" "[]"]
  show ?thesis by (simp add: result_with_score_def)
qed

subsection \<open>Fused scores\<close>

text \<open>What holds of the fused scores: a vector result's score is its raw score times
  \<open>vector_weight\<close>, a graph result's projection has the score
  \<open>(score or 0.5) * graph_weight\<close>, and the returned list is sorted by descending score
  (lemma \<open>combine_search_results_sorted\<close>).\<close>

lemma combine_search_results_scores:
  assumes "distinct vrs" and "\<forall>r \<in> set vrs. r < length h"
  shows "scores_of (snd (combine_search_results py_str vrs grs vw gw h)) vrs
           = map (\<lambda>s. s * vw) (scores_of h vrs)
       \<and> scores_of (snd (combine_search_results py_str vrs grs vw gw h))
           [length h..<length h + length grs]
           = map (\<lambda>g. score_or_default (gr_score g) * gw) grs"
proof -
  have a: "map (\<lambda>r. cr_score (snd (combine_search_results py_str vrs grs vw gw h) ! r)) vrs
         = map (\<lambda>r. cr_score (h ! r) * vw) vrs"
    by (rule map_cong[OF refl])
       (use assms in \<open>simp add: combine_search_results_store nth_append weight_vector_results_scaled\<close>)
  have b: "map (\<lambda>r. cr_score (snd (combine_search_results py_str vrs grs vw gw h) ! r))
             [length h..<length h + length grs]
         = map (\<lambda>g. score_or_default (gr_score g) * gw) grs"
    by (rule nth_equalityI)
       (simp_all add: combine_search_results_store nth_append graph_chunk_result_def)
  from a b show ?thesis by (simp add: scores_of_def o_def)
qed

text \<open>With the weights 0.7 and 0.3, a vector result and a graph result of raw score 1
  get the scores 0.7 and 0.3, in that order.\<close>

lemma fusion_example:
  "fst (combine_search_results render [0] [entity_with_score (Some 1)] 0.7 0.3
          [result_with_score 1]) = [0, 1]
   \<and> scores_of (snd (combine_search_results render [0] [entity_with_score (Some 1)] 0.7 0.3
                      [result_with_score 1])) [0, 1] = [0.7, 0.3]"
  by (simp add: combine_search_results_def sort_by_score_desc_def new_object_def set_score_def
        graph_chunk_result_def score_or_default_def entity_with_score_def result_with_score_def
        scores_of_def Let_def)

text \<open>
  Claim C6: in hybrid fusion a graph result's score is its raw score, or 0.5 when it
  carries no score, times \<open>graph_weight\<close>. The code computes
  \<open>(graph_result.score or 0.5)\<close>, and Python's \<open>or\<close> also replaces the score 0.0: a
  graph result that carries the score 0.0 is fused, with \<open>graph_weight = 0.3\<close>, to
  \<open>0.5 * 0.3 = 0.15\<close> and not to \<open>0.0 * 0.3 = 0\<close>.
\<close>

theorem zero_graph_score_replaced:
  "scores_of (snd (combine_search_results render [] [entity_with_score (Some 0)] 0.7 0.3 []))
     (fst (combine_search_results render [] [entity_with_score (Some 0)] 0.7 0.3 [])) = [0.15]"
  by (simp add: combine_search_results_def sort_by_score_desc_def new_object_def set_score_def
        graph_chunk_result_def score_or_default_def entity_with_score_def
        scores_of_def Let_def)


subsection \<open>Score normalization\<close>



lemma set_all_one_length [simp]: "length (set_all_one rs h) = length h"
  by (induction rs arbitrary: h) simp_all



lemma rescale_all_length [simp]: "length (rescale_all mn rg rs h) = length h"
  by (induction rs arbitrary: h) simp_all








subsection \<open>Deduplication\<close>


lemma first_per_key_keys:
  "distinct (map key (first_per_key key xs))
   \<and> set (map key (first_per_key key xs)) = set (map key xs)"
proof (induction key xs rule: first_per_key.induct)
  case (1 key)
  then show ?case by simp
next
  case (2 key x xs)
  then show ?case by auto
qed




end
